theory Spec2Isabelle
  imports Complex_Main "HOL-Library.Sublist"
begin

section \<open>Conversation state\<close>

text \<open>
  The transcript is the module-level list \<open>conversation_history\<close> of app.py. Its
  elements are the three langchain message classes the program constructs, each carrying
  its \<open>content\<close>. Strings are byte lists: a character outside ASCII is written as its
  UTF-8 bytes.
\<close>

datatype message = SystemMessage string | HumanMessage string | AIMessage string

text \<open>The literal of app.py lines 25 to 38, the value the transcript has at start-up.\<close>

definition initial_conversation_history :: "message list" where
  "initial_conversation_history = [SystemMessage (
     ''You are a professional fraud detection analyst assistant. \<newline>'' @
     ''Your role is to analyze cosmetics transaction data and provide clear, well-structured insights about fraud patterns.\<newline>'' @
     ''\<newline>'' @
     ''IMPORTANT GUIDELINES:\<newline>'' @
     ''- Provide responses in a clear, professional format\<newline>'' @
     ''- Use bullet points, numbered lists, and proper formatting\<newline>'' @
     ''- Include specific statistics and percentages when relevant\<newline>'' @
     ''- Highlight key patterns and anomalies\<newline>'' @
     ''- Keep responses concise but comprehensive\<newline>'' @
     ''- Use **bold text** for emphasis and section titles (NOT markdown headers like ## or ###)\<newline>'' @
     ''- Use bullet points (*) and numbered lists for better readability\<newline>'' @
     ''- Avoid using markdown headers (##, ###) - instead use **bold text** for section titles\<newline>'' @
     ''- Avoid messy formatting or special characters like ^^\<newline>'' @
     ''- Structure your responses with clear sections using bold text for headings'')]"

text \<open>The exceptions the modelled statements can raise: a missing dictionary key or
  series label, an index outside a list, and a division by zero.\<close>

datatype error = KeyError | IndexError | ZeroDivisionError

fun and_then :: "error + 'a \<Rightarrow> ('a \<Rightarrow> error + 'b) \<Rightarrow> error + 'b" where
  "and_then (Inl e) f = Inl e"
| "and_then (Inr x) f = f x"

section \<open>Numbers and their printed forms\<close>

text \<open>
  Python's floats are modelled by exact rationals; a float that may be NaN is a
  \<open>rat option\<close> with \<open>None\<close> for NaN. Rounding to a number of decimals is to the
  nearest, ties to even, as \<open>numpy.round\<close> and the format specifier \<open>.nf\<close> do on a
  value that is exactly representable.
\<close>

definition digit_char :: "nat \<Rightarrow> char" where
  "digit_char d = ''0123456789'' ! (d mod 10)"

fun str_nat :: "nat \<Rightarrow> string" where
  "str_nat n = (if n < 10 then [digit_char n] else str_nat (n div 10) @ [digit_char (n mod 10)])"

declare str_nat.simps [simp del]

definition str_int :: "int \<Rightarrow> string" where
  "str_int i = (if i < 0 then ''-'' @ str_nat (nat (- i)) else str_nat (nat i))"

definition zero_pad :: "nat \<Rightarrow> string \<Rightarrow> string" where
  "zero_pad w s = replicate (w - length s) (CHR ''0'') @ s"

text \<open>The format specifier \<open>,\<close> on a non-negative int: groups of three digits.\<close>

fun format_thousands :: "nat \<Rightarrow> string" where
  "format_thousands n =
     (if n < 1000 then str_nat n
      else format_thousands (n div 1000) @ '','' @ zero_pad 3 (str_nat (n mod 1000)))"

declare format_thousands.simps [simp del]

text \<open>The division \<open>/\<close> of two numbers: a zero divisor raises.\<close>

definition truediv :: "rat \<Rightarrow> rat \<Rightarrow> error + rat" where
  "truediv a b = (if b = 0 then Inl ZeroDivisionError else Inr (a / b))"

definition round_half_even :: "rat \<Rightarrow> int" where
  "round_half_even x =
     (let f = \<lfloor>x\<rfloor>; d = x - of_int f
      in if d < 1 / 2 then f else if 1 / 2 < d then f + 1 else if even f then f else f + 1)"

text \<open>\<open>Series.round(2)\<close> on one value.\<close>

definition round2 :: "rat \<Rightarrow> rat" where
  "round2 x = of_int (round_half_even (x * 100)) / 100"

text \<open>The format specifier \<open>.kf\<close> on a finite float.\<close>

definition format_fixed :: "nat \<Rightarrow> rat \<Rightarrow> string" where
  "format_fixed k x =
     (let m = nat (round_half_even (\<bar>x\<bar> * 10 ^ k));
          ip = m div 10 ^ k;
          fp = m mod 10 ^ k
      in (if x < 0 then ''-'' else []) @ str_nat ip
         @ (if k = 0 then [] else ''.'' @ zero_pad k (str_nat fp)))"

definition format_float :: "nat \<Rightarrow> rat option \<Rightarrow> string" where
  "format_float k v = (case v of None \<Rightarrow> ''nan'' | Some x \<Rightarrow> format_fixed k x)"

text \<open>
  \<open>str\<close> of a float that \<open>round(2)\<close> produced, as an f-string field without a format
  specifier prints it: the shortest decimal, with at least one digit after the point
  (\<open>50.0\<close>, \<open>33.3\<close>, \<open>14.29\<close>). The argument is a multiple of 1/100.
\<close>

definition str_float2 :: "rat \<Rightarrow> string" where
  "str_float2 x =
     (let m = nat \<lfloor>\<bar>x\<bar> * 100\<rfloor>;
          ip = m div 100;
          fp = m mod 100
      in (if x < 0 then ''-'' else []) @ str_nat ip @ ''.''
         @ (if fp mod 10 = 0 then [digit_char (fp div 10)] else zero_pad 2 (str_nat fp)))"

section \<open>The dataset\<close>

text \<open>
  A loaded table is a pandas DataFrame: the list of its column names and its rows. A row
  holds the cells the digest reads, typed as the data model types them: the fraud flag is
  an integer, a categorical cell is a text or empty, a numeric cell is a number or empty
  (\<open>None\<close> is pandas' NaN). A field of a row is read only under the test that its column
  is in \<open>columns\<close>, as the program does.
\<close>

record row =
  Fraud_Flag :: int
  Customer_Loyalty_Tier :: "string option"
  Payment_Method :: "string option"
  Product_Category :: "string option"
  Store_ID :: "string option"
  Location :: "string option"
  Device_Type :: "string option"
  Purchase_Amount :: "rat option"
  Customer_Age :: "rat option"

record dataframe =
  columns :: "string list"
  rows :: "row list"

text \<open>The process state: the two module-level variables the routes read and write.
  \<open>df\<close> is \<open>None\<close> when \<open>pd.read_excel\<close> failed at start-up.\<close>

record state =
  df :: "dataframe option"
  conversation_history :: "message list"

subsection \<open>Series operations\<close>

primrec dropna :: "'a option list \<Rightarrow> 'a list" where
  "dropna [] = []"
| "dropna (c # cs) = (case c of None \<Rightarrow> dropna cs | Some v \<Rightarrow> v # dropna cs)"

text \<open>The distinct values of a list, each at the place of its first occurrence.\<close>

primrec unique :: "'a list \<Rightarrow> 'a list" where
  "unique [] = []"
| "unique (x # xs) = x # filter (\<lambda>y. y \<noteq> x) (unique xs)"

text \<open>
  Modelled from the spec: \<open>Series.value_counts\<close> is pandas code, not under src/. It
  counts the non-empty cells by value and lists the groups by descending count; the spec
  fixes the order of groups with equal counts as the stable order of first occurrence.
\<close>

definition value_counts :: "'a option list \<Rightarrow> ('a \<times> nat) list" where
  "value_counts col =
     (let vals = dropna col
      in sort_key (\<lambda>g. - int (snd g)) (map (\<lambda>v. (v, count_list vals v)) (unique vals)))"

text \<open>The reductions skip NaN; on no value at all the mean, median, min and max are NaN
  and the sum is 0.\<close>

definition series_mean :: "rat option list \<Rightarrow> rat option" where
  "series_mean col =
     (let vs = dropna col in if vs = [] then None else Some (sum_list vs / of_nat (length vs)))"

definition series_median :: "rat option list \<Rightarrow> rat option" where
  "series_median col =
     (let vs = sort (dropna col); n = length vs
      in if n = 0 then None
         else if odd n then Some (vs ! (n div 2))
         else Some ((vs ! (n div 2 - 1) + vs ! (n div 2)) / 2))"

definition series_min :: "rat option list \<Rightarrow> rat option" where
  "series_min col = (case dropna col of [] \<Rightarrow> None | v # vs \<Rightarrow> Some (fold min vs v))"

definition series_max :: "rat option list \<Rightarrow> rat option" where
  "series_max col = (case dropna col of [] \<Rightarrow> None | v # vs \<Rightarrow> Some (fold max vs v))"

definition series_sum :: "rat option list \<Rightarrow> rat option" where
  "series_sum col = Some (sum_list (dropna col))"

section \<open>The digest builder\<close>

text \<open>Lines 50 to 55 of \<open>get_dataset_summary\<close>. The count of fraudulent transactions is
  the sum of the flag column, the fraud subset is the rows whose flag equals 1, and without
  the flag column the subset is the empty frame \<open>pd.DataFrame()\<close>.\<close>

definition fraud_count :: "dataframe \<Rightarrow> int" where
  "fraud_count d =
     (if ''Fraud_Flag'' \<in> set (columns d) then sum_list (map Fraud_Flag (rows d)) else 0)"

definition fraud_rate :: "dataframe \<Rightarrow> error + rat" where
  "fraud_rate d =
     (if length (rows d) > 0
      then and_then (truediv (of_int (fraud_count d)) (of_nat (length (rows d))))
             (\<lambda>q. Inr (q * 100))
      else Inr 0)"

definition fraud_df :: "dataframe \<Rightarrow> dataframe" where
  "fraud_df d =
     (if ''Fraud_Flag'' \<in> set (columns d)
      then \<lparr>columns = columns d, rows = filter (\<lambda>r. Fraud_Flag r = 1) (rows d)\<rparr>
      else \<lparr>columns = [], rows = []\<rparr>)"

text \<open>The f-string of lines 57 to 69, in its two paragraphs.\<close>

definition overview_block :: "dataframe \<Rightarrow> rat \<Rightarrow> string" where
  "overview_block d rate =
     ''\<newline>'' @
     ''DATASET OVERVIEW:\<newline>'' @
     ''- Total Transactions: '' @ format_thousands (length (rows d)) @ ''\<newline>'' @
     ''- Fraudulent Transactions: '' @ str_int (fraud_count d)
        @ '' ('' @ format_fixed 2 rate @ ''%)\<newline>'' @
     ''- Legitimate Transactions: '' @ str_int (int (length (rows d)) - fraud_count d)
        @ '' ('' @ format_fixed 2 (100 - rate) @ ''%)\<newline>'' @
     ''\<newline>''"

definition key_columns_block :: string where
  "key_columns_block =
     ''KEY COLUMNS AVAILABLE:\<newline>'' @
     ''- Transaction_ID, Customer_ID, Transaction_Date, Transaction_Time\<newline>'' @
     ''- Customer_Age, Customer_Loyalty_Tier, Location, Store_ID\<newline>'' @
     ''- Product_SKU, Product_Category, Purchase_Amount\<newline>'' @
     ''- Payment_Method, Device_Type, IP_Address, Fraud_Flag, Footfall_Count\<newline>'' @
     ''\<newline>''"

text \<open>The line of one group: its label, its count, its percentage and the end of the
  line, which differs between the blocks.\<close>

definition group_line :: "string \<Rightarrow> string \<Rightarrow> nat \<Rightarrow> rat \<Rightarrow> string" where
  "group_line tail v count pct =
     ''  - '' @ v @ '': '' @ str_nat count @ '' transactions ('' @ str_float2 pct @ tail"

text \<open>The loop over the groups of one breakdown: the percentage of a group is looked up
  by its label in the series of percentages, and one line is appended.\<close>

fun breakdown_loop ::
  "(string \<times> rat) list \<Rightarrow> string \<Rightarrow> (string \<times> nat) list \<Rightarrow> string \<Rightarrow> error + string" where
  "breakdown_loop percentages tail [] summary = Inr summary"
| "breakdown_loop percentages tail ((v, count) # items) summary =
     (case map_of percentages v of
        None \<Rightarrow> Inl KeyError
      | Some pct \<Rightarrow>
          breakdown_loop percentages tail items (summary @ group_line tail v count pct))"

text \<open>\<open>head(k)\<close> where a block truncates, the whole series where it does not.\<close>

definition head_groups :: "nat option \<Rightarrow> 'a list \<Rightarrow> 'a list" where
  "head_groups limit counts = (case limit of None \<Rightarrow> counts | Some k \<Rightarrow> take k counts)"

text \<open>One of the six categorical blocks (lines 75 to 127): the column name, the field it
  reads, the title line, the end of each line, and the argument of \<open>head\<close> when the block
  truncates. The series of counts is divided by \<open>len(fraud_df)\<close>, which is positive where
  the blocks run.\<close>

definition categorical_breakdown ::
  "string \<Rightarrow> (row \<Rightarrow> string option) \<Rightarrow> string \<Rightarrow> string \<Rightarrow> nat option
     \<Rightarrow> dataframe \<Rightarrow> string \<Rightarrow> error + string" where
  "categorical_breakdown column field title tail limit fdf summary =
     (if column \<in> set (columns fdf) then
        (let counts = value_counts (map field (rows fdf));
             percentages =
               map (\<lambda>(v, c). (v, round2 (of_nat c / of_nat (length (rows fdf)) * 100))) counts
         in breakdown_loop percentages tail (head_groups limit counts) (summary @ title))
      else Inr summary)"

definition purchase_amount_statistics :: "dataframe \<Rightarrow> string \<Rightarrow> string" where
  "purchase_amount_statistics fdf summary =
     (if ''Purchase_Amount'' \<in> set (columns fdf) then
        (let amounts = map Purchase_Amount (rows fdf)
         in summary @ ''\<newline>Purchase Amount Statistics for Fraud:\<newline>''
            @ ''  - Average: $'' @ format_float 2 (series_mean amounts) @ ''\<newline>''
            @ ''  - Median: $'' @ format_float 2 (series_median amounts) @ ''\<newline>''
            @ ''  - Min: $'' @ format_float 2 (series_min amounts) @ ''\<newline>''
            @ ''  - Max: $'' @ format_float 2 (series_max amounts) @ ''\<newline>''
            @ ''  - Total Fraud Amount: $'' @ format_float 2 (series_sum amounts) @ ''\<newline>'')
      else summary)"

definition customer_age_statistics :: "dataframe \<Rightarrow> string \<Rightarrow> string" where
  "customer_age_statistics fdf summary =
     (if ''Customer_Age'' \<in> set (columns fdf) then
        (let ages = map Customer_Age (rows fdf)
         in summary @ ''\<newline>Customer Age Statistics for Fraud:\<newline>''
            @ ''  - Average Age: '' @ format_float 1 (series_mean ages) @ '' years\<newline>''
            @ ''  - Min Age: '' @ format_float 0 (series_min ages) @ '' years\<newline>''
            @ ''  - Max Age: '' @ format_float 0 (series_max ages) @ '' years\<newline>'')
      else summary)"

definition time_note :: "dataframe \<Rightarrow> string \<Rightarrow> string" where
  "time_note fdf summary =
     (if ''Transaction_Time'' \<in> set (columns fdf)
      then summary @ ''\<newline>Note: Transaction times available for time-based pattern analysis\<newline>''
      else summary)"

text \<open>The six categorical blocks, in the order of the source.\<close>

definition loyalty_tier_analysis :: "dataframe \<Rightarrow> string \<Rightarrow> error + string" where
  "loyalty_tier_analysis =
     categorical_breakdown ''Customer_Loyalty_Tier'' Customer_Loyalty_Tier
       ''\<newline>Customer Loyalty Tier Distribution in Fraud:\<newline>'' ''% of all fraud)\<newline>'' None"

definition payment_method_analysis :: "dataframe \<Rightarrow> string \<Rightarrow> error + string" where
  "payment_method_analysis =
     categorical_breakdown ''Payment_Method'' Payment_Method
       ''\<newline>Payment Methods in Fraud:\<newline>'' ''%)\<newline>'' None"

definition product_category_analysis :: "dataframe \<Rightarrow> string \<Rightarrow> error + string" where
  "product_category_analysis =
     categorical_breakdown ''Product_Category'' Product_Category
       ''\<newline>Product Categories in Fraud:\<newline>'' ''%)\<newline>'' None"

definition store_analysis :: "dataframe \<Rightarrow> string \<Rightarrow> error + string" where
  "store_analysis =
     categorical_breakdown ''Store_ID'' Store_ID
       ''\<newline>Stores in Fraud (Top 10):\<newline>'' ''%)\<newline>'' (Some 10)"

definition location_analysis :: "dataframe \<Rightarrow> string \<Rightarrow> error + string" where
  "location_analysis =
     categorical_breakdown ''Location'' Location
       ''\<newline>Locations in Fraud (Top 10):\<newline>'' ''%)\<newline>'' (Some 10)"

definition device_type_analysis :: "dataframe \<Rightarrow> string \<Rightarrow> error + string" where
  "device_type_analysis =
     categorical_breakdown ''Device_Type'' Device_Type
       ''\<newline>Device Types in Fraud:\<newline>'' ''%)\<newline>'' None"

text \<open>Line 73, the heading of the statistics.\<close>

definition statistics_heading :: "dataframe \<Rightarrow> string" where
  "statistics_heading fdf =
     ''\<newline>\<newline>COMPREHENSIVE FRAUD STATISTICS (Based on ALL '' @ str_nat (length (rows fdf))
       @ '' fraudulent transactions):\<newline>''"

text \<open>The body of \<open>if len(fraud_df) > 0\<close> (lines 73 to 147), block after block.\<close>

definition fraud_statistics :: "dataframe \<Rightarrow> string \<Rightarrow> error + string" where
  "fraud_statistics fdf summary =
     and_then (loyalty_tier_analysis fdf (summary @ statistics_heading fdf))
     (\<lambda>s1. and_then (payment_method_analysis fdf s1)
     (\<lambda>s2. and_then (product_category_analysis fdf s2)
     (\<lambda>s3. and_then (store_analysis fdf s3)
     (\<lambda>s4. and_then (location_analysis fdf s4)
     (\<lambda>s5. and_then (device_type_analysis fdf s5)
     (\<lambda>s6. Inr (time_note fdf
                  (customer_age_statistics fdf (purchase_amount_statistics fdf s6)))))))))"

definition get_dataset_summary :: "dataframe option \<Rightarrow> error + string" where
  "get_dataset_summary dfo =
     (case dfo of
        None \<Rightarrow> Inr ''Dataset not available.''
      | Some d \<Rightarrow>
          and_then (fraud_rate d)
            (\<lambda>rate.
               let summary = overview_block d rate @ key_columns_block
               in if length (rows (fraud_df d)) > 0 then fraud_statistics (fraud_df d) summary
                  else Inr summary))"

section \<open>The chat routes\<close>

text \<open>The f-string of lines 164 to 178, the enriched body of the user turn; its last
  paragraph (lines 171 to 178) is the list of formatting directives.\<close>

definition formatting_directives :: string where
  "formatting_directives =
     ''Remember to:\<newline>'' @
     ''- Provide well-structured, formatted responses\<newline>'' @
     ''- Use specific numbers and statistics from the data\<newline>'' @
     ''- Use **bold text** for section headings (NOT ## or ###)\<newline>'' @
     ''- Use bullet points (*) and numbered lists for better readability\<newline>'' @
     ''- Keep it clear and professional\<newline>'' @
     ''- Avoid using markdown headers (##, ###) - use bold text instead\<newline>'' @
     ''- Avoid messy formatting''"

definition compose_prompt :: "string \<Rightarrow> string \<Rightarrow> string" where
  "compose_prompt dataset_summary user_message =
     ''You have access to a cosmetics fraud detection dataset. Here's a summary:\<newline>'' @
     ''\<newline>'' @
     dataset_summary @ ''\<newline>'' @
     ''\<newline>'' @
     ''Now answer this question clearly and professionally:\<newline>'' @
     user_message @ ''\<newline>'' @
     ''\<newline>'' @
     formatting_directives"

text \<open>\<open>xs[-1] = v\<close>: an empty list has no last index.\<close>

definition set_last :: "'a list \<Rightarrow> 'a \<Rightarrow> error + 'a list" where
  "set_last xs v = (if xs = [] then Inl IndexError else Inr (xs[length xs - 1 := v]))"

text \<open>Lines 158 to 179: with a loaded dataset, the last turn is replaced by the enriched
  one. An exception leaves the state as it is at that point.\<close>

definition add_dataset_context :: "string \<Rightarrow> state \<Rightarrow> (error + unit) \<times> state" where
  "add_dataset_context user_message s =
     (if df s \<noteq> None then
        (case get_dataset_summary (df s) of
           Inl e \<Rightarrow> (Inl e, s)
         | Inr dataset_summary \<Rightarrow>
             (case set_last (conversation_history s)
                     (HumanMessage (compose_prompt dataset_summary user_message)) of
                Inl e \<Rightarrow> (Inl e, s)
              | Inr h \<Rightarrow> (Inr (), s\<lparr>conversation_history := h\<rparr>)))
      else (Inr (), s))"

text \<open>The prefix of the reply that reports a failed call: a warning sign (U+26A0, U+FE0F)
  and the word Error.\<close>

definition error_prefix :: string where
  "error_prefix = [CHR 0xE2, CHR 0x9A, CHR 0xA0, CHR 0xEF, CHR 0xB8, CHR 0x8F] @ '' Error: ''"

text \<open>
  \<open>chat_route\<close>. The request body is the JSON object as a list of key and value; the
  answering service \<open>chat.invoke\<close> is a parameter that maps the transcript it is sent to
  the content of its response (\<open>Inr\<close>) or to the text of the exception it raises
  (\<open>Inl\<close>). The result is the reply of the route, or the exception that leaves it, and the
  state the call leaves behind.
\<close>

definition chat_route ::
  "(message list \<Rightarrow> string + string) \<Rightarrow> (string \<times> string) list \<Rightarrow> state
     \<Rightarrow> (error + string) \<times> state" where
  "chat_route invoke request_json s =
     (case map_of request_json ''message'' of
        None \<Rightarrow> (Inl KeyError, s)
      | Some user_message \<Rightarrow>
          (let s1 = s\<lparr>conversation_history :=
                       conversation_history s @ [HumanMessage user_message]\<rparr>
           in case add_dataset_context user_message s1 of
                (Inl e, s2) \<Rightarrow> (Inl e, s2)
              | (Inr u, s2) \<Rightarrow>
                  (let ai_response =
                         (case invoke (conversation_history s2) of
                            Inr content \<Rightarrow> content
                          | Inl e \<Rightarrow> error_prefix @ e);
                       s3 = s2\<lparr>conversation_history :=
                                conversation_history s2 @ [AIMessage ai_response]\<rparr>
                   in (Inr ai_response, s3))))"

text \<open>\<open>clear_chat\<close> (lines 193 to 210): the transcript is replaced by the literal of
  lines 196 to 209; the reply is a check mark (U+2705) and a fixed sentence.\<close>

definition clear_chat :: "state \<Rightarrow> string \<times> state" where
  "clear_chat s =
     ([CHR 0xE2, CHR 0x9C, CHR 0x85] @ '' Chat history cleared.'',
      s\<lparr>conversation_history := [SystemMessage (
     ''You are a professional fraud detection analyst assistant. \<newline>'' @
     ''Your role is to analyze cosmetics transaction data and provide clear, well-structured insights about fraud patterns.\<newline>'' @
     ''\<newline>'' @
     ''IMPORTANT GUIDELINES:\<newline>'' @
     ''- Provide responses in a clear, professional format\<newline>'' @
     ''- Use bullet points, numbered lists, and proper formatting\<newline>'' @
     ''- Include specific statistics and percentages when relevant\<newline>'' @
     ''- Highlight key patterns and anomalies\<newline>'' @
     ''- Keep responses concise but comprehensive\<newline>'' @
     ''- Use **bold text** for emphasis and section titles (NOT markdown headers like ## or ###)\<newline>'' @
     ''- Use bullet points (*) and numbered lists for better readability\<newline>'' @
     ''- Avoid using markdown headers (##, ###) - instead use **bold text** for section titles\<newline>'' @
     ''- Avoid messy formatting or special characters like ^^\<newline>'' @
     ''- Structure your responses with clear sections using bold text for headings'')]\<rparr>)"

text \<open>The snapshot of the transcript is a read of the variable.\<close>

definition snapshot :: "state \<Rightarrow> message list" where
  "snapshot s = conversation_history s"

section \<open>The text a block appends\<close>

text \<open>A block of the digest builder takes the summary so far and returns it extended.
  \<open>appended\<close> is what a block adds to the empty text.\<close>

definition appended :: "(string \<Rightarrow> error + string) \<Rightarrow> string" where
  "appended block = (case block [] of Inr t \<Rightarrow> t | Inl e \<Rightarrow> [])"

text \<open>The lines of one breakdown as a text: the title, then one line per listed group,
  with the percentage of the group relative to the number of cells of the column.\<close>

definition section_text :: "string \<Rightarrow> string \<Rightarrow> nat option \<Rightarrow> string option list \<Rightarrow> string" where
  "section_text title tail limit col =
     title @ concat (map (\<lambda>g. group_line tail (fst g) (snd g)
                                 (round2 (of_nat (snd g) / of_nat (length col) * 100)))
                         (head_groups limit (value_counts col)))"

text \<open>The names the second paragraph of the header lists, line by line, and the way a
  line joins them.\<close>

fun str_join :: "string \<Rightarrow> string list \<Rightarrow> string" where
  "str_join sep [] = []"
| "str_join sep [x] = x"
| "str_join sep (x # y # ys) = x @ sep @ str_join sep (y # ys)"

definition key_column_names :: "string list list" where
  "key_column_names =
     [[''Transaction_ID'', ''Customer_ID'', ''Transaction_Date'', ''Transaction_Time''],
      [''Customer_Age'', ''Customer_Loyalty_Tier'', ''Location'', ''Store_ID''],
      [''Product_SKU'', ''Product_Category'', ''Purchase_Amount''],
      [''Payment_Method'', ''Device_Type'', ''IP_Address'', ''Fraud_Flag'', ''Footfall_Count'']]"




section \<open>Example tables\<close>

text \<open>A row with a flag, a payment method, a store and an amount, its other cells empty.\<close>

definition transaction :: "int \<Rightarrow> string option \<Rightarrow> string option \<Rightarrow> rat option \<Rightarrow> row" where
  "transaction flag payment store amount =
     \<lparr>Fraud_Flag = flag, Customer_Loyalty_Tier = None, Payment_Method = payment,
      Product_Category = None, Store_ID = store, Location = None, Device_Type = None,
      Purchase_Amount = amount, Customer_Age = None\<rparr>"

text \<open>One hundred transactions, ten of them fraudulent: five paid by card, five in cash.\<close>

definition card_cash_table :: dataframe where
  "card_cash_table =
     \<lparr>columns = [''Fraud_Flag'', ''Payment_Method''],
      rows = replicate 90 (transaction 0 (Some ''Card'') None None)
             @ replicate 5 (transaction 1 (Some ''Card'') None None)
             @ replicate 5 (transaction 1 (Some ''Cash'') None None)\<rparr>"

text \<open>Two legitimate transactions in a table that has the columns of the statistics.\<close>

definition legitimate_table :: dataframe where
  "legitimate_table =
     \<lparr>columns = [''Fraud_Flag'', ''Payment_Method'', ''Store_ID'', ''Purchase_Amount'',
                 ''Customer_Age'', ''Transaction_Time''],
      rows = [transaction 0 (Some ''Card'') (Some ''S1'') (Some 120),
              transaction 0 (Some ''Cash'') (Some ''S2'') (Some 80)]\<rparr>"



section \<open>The digest builder never raises\<close>

lemma set_unique: "set (unique xs) = set xs"
  by (induction xs) auto

lemma distinct_unique: "distinct (unique xs)"
  by (induction xs) (auto simp: set_unique)


lemma distinct_keys_sort_key:
  assumes "distinct (map fst ys)"
  shows "distinct (map fst (sort_key f ys))"
proof -
  from assms have "distinct ys \<and> inj_on fst (set ys)"
    by (simp only: distinct_map)
  then have "distinct (sort_key f ys) \<and> inj_on fst (set (sort_key f ys))"
    by simp
  then show ?thesis
    by (simp only: distinct_map)
qed

lemma distinct_keys_value_counts: "distinct (map fst (value_counts col))"
proof -
  have "map fst (map (\<lambda>v. (v, count_list (dropna col) v)) (unique (dropna col)))
          = unique (dropna col)"
    by (simp add: comp_def)
  then have "distinct (map fst (map (\<lambda>v. (v, count_list (dropna col) v)) (unique (dropna col))))"
    by (simp only: distinct_unique)
  then show ?thesis
    unfolding value_counts_def Let_def by (rule distinct_keys_sort_key)
qed

lemma set_head_groups: "set (head_groups limit xs) \<subseteq> set xs"
  by (auto simp: head_groups_def split: option.splits dest: in_set_takeD)

lemma breakdown_loop_ok:
  assumes "\<forall>g\<in>set items. map_of pcts (fst g) = Some (p g)"
  shows "breakdown_loop pcts tail items s
           = Inr (s @ concat (map (\<lambda>g. group_line tail (fst g) (snd g) (p g)) items))"
  using assms
proof (induction items arbitrary: s)
  case Nil
  then show ?case by simp
next
  case (Cons g items)
  obtain v c where g: "g = (v, c)" by (cases g)
  from Cons.prems have "map_of pcts v = Some (p (v, c))" by (simp add: g)
  moreover from Cons.prems have "\<forall>g\<in>set items. map_of pcts (fst g) = Some (p g)" by simp
  ultimately show ?case using Cons.IH by (simp add: g)
qed

lemma map_of_percentages:
  assumes "distinct (map fst counts)" "g \<in> set counts"
  shows "map_of (map (\<lambda>(v, c). (v, F c)) counts) (fst g) = Some (F (snd g))"
proof -
  have "distinct (map fst (map (\<lambda>(v, c). (v, F c)) counts))"
    using assms(1) by (simp add: comp_def case_prod_unfold)
  moreover have "(fst g, F (snd g)) \<in> set (map (\<lambda>(v, c). (v, F c)) counts)"
    using assms(2) by (force simp: case_prod_unfold)
  ultimately show ?thesis by (rule map_of_is_SomeI)
qed

lemma categorical_breakdown_eq:
  "categorical_breakdown column field title tail limit fdf s
     = Inr (s @ (if column \<in> set (columns fdf)
                 then section_text title tail limit (map field (rows fdf)) else []))"
proof (cases "column \<in> set (columns fdf)")
  case False
  then show ?thesis by (simp add: categorical_breakdown_def)
next
  case True
  let ?counts = "value_counts (map field (rows fdf))"
  let ?F = "\<lambda>c. round2 (of_nat c / of_nat (length (rows fdf)) * 100)"
  have "\<forall>g\<in>set (head_groups limit ?counts).
          map_of (map (\<lambda>(v, c). (v, ?F c)) ?counts) (fst g) = Some (?F (snd g))"
    using set_head_groups [of limit ?counts] distinct_keys_value_counts [of "map field (rows fdf)"]
    by (auto intro!: map_of_percentages)
  from breakdown_loop_ok [OF this]
  show ?thesis using True
    by (simp add: categorical_breakdown_def Let_def section_text_def)
qed


lemma loyalty_tier_analysis_eq:
  "loyalty_tier_analysis fdf s = Inr (s @ appended (loyalty_tier_analysis fdf))"
  by (simp add: loyalty_tier_analysis_def categorical_breakdown_eq appended_def)

lemma payment_method_analysis_eq:
  "payment_method_analysis fdf s = Inr (s @ appended (payment_method_analysis fdf))"
  by (simp add: payment_method_analysis_def categorical_breakdown_eq appended_def)

lemma product_category_analysis_eq:
  "product_category_analysis fdf s = Inr (s @ appended (product_category_analysis fdf))"
  by (simp add: product_category_analysis_def categorical_breakdown_eq appended_def)

lemma store_analysis_eq:
  "store_analysis fdf s = Inr (s @ appended (store_analysis fdf))"
  by (simp add: store_analysis_def categorical_breakdown_eq appended_def)

lemma location_analysis_eq:
  "location_analysis fdf s = Inr (s @ appended (location_analysis fdf))"
  by (simp add: location_analysis_def categorical_breakdown_eq appended_def)

lemma device_type_analysis_eq:
  "device_type_analysis fdf s = Inr (s @ appended (device_type_analysis fdf))"
  by (simp add: device_type_analysis_def categorical_breakdown_eq appended_def)

lemma purchase_amount_statistics_eq:
  "purchase_amount_statistics fdf s = s @ purchase_amount_statistics fdf []"
  by (simp add: purchase_amount_statistics_def Let_def)

lemma customer_age_statistics_eq:
  "customer_age_statistics fdf s = s @ customer_age_statistics fdf []"
  by (simp add: customer_age_statistics_def Let_def)

lemma time_note_eq: "time_note fdf s = s @ time_note fdf []"
  by (simp add: time_note_def)

lemma fraud_statistics_eq:
  "fraud_statistics fdf s =
     Inr (s @ statistics_heading fdf
            @ appended (loyalty_tier_analysis fdf)
            @ appended (payment_method_analysis fdf)
            @ appended (product_category_analysis fdf)
            @ appended (store_analysis fdf)
            @ appended (location_analysis fdf)
            @ appended (device_type_analysis fdf)
            @ purchase_amount_statistics fdf []
            @ customer_age_statistics fdf []
            @ time_note fdf [])"
proof -
  have "time_note fdf (customer_age_statistics fdf (purchase_amount_statistics fdf u))
          = u @ purchase_amount_statistics fdf [] @ customer_age_statistics fdf [] @ time_note fdf []"
    for u
    by (metis append.assoc purchase_amount_statistics_eq customer_age_statistics_eq time_note_eq)
  then show ?thesis
    by (simp add: fraud_statistics_def loyalty_tier_analysis_eq payment_method_analysis_eq
        product_category_analysis_eq store_analysis_eq location_analysis_eq
        device_type_analysis_eq)
qed

lemma fraud_rate_eq:
  "fraud_rate d = Inr (if rows d = [] then 0
                       else of_int (fraud_count d) / of_nat (length (rows d)) * 100)"
  by (simp add: fraud_rate_def truediv_def)


section \<open>The chat route, case by case\<close>


lemma add_dataset_context_none:
  "df s = None \<Longrightarrow> add_dataset_context user_message s = (Inr (), s)"
  by (simp add: add_dataset_context_def)


lemma chat_route_none:
  assumes "df s = None" and "map_of request_json ''message'' = Some user_message"
  shows "chat_route invoke request_json s =
     (let reply = (case invoke (conversation_history s @ [HumanMessage user_message]) of
                     Inr content \<Rightarrow> content | Inl e \<Rightarrow> error_prefix @ e)
      in (Inr reply, s\<lparr>conversation_history :=
                          conversation_history s @ [HumanMessage user_message, AIMessage reply]\<rparr>))"
  using assms by (simp add: chat_route_def Let_def add_dataset_context_none)






section \<open>Reset of the transcript\<close>

text \<open>
  C8. After \<open>clear_chat\<close>, a snapshot of the transcript is exactly one turn, a system
  turn, and its body is the text the transcript starts with when the process starts: the
  literal of \<open>clear_chat\<close> and the literal of the module level are the same text.
\<close>
theorem clear_chat_then_snapshot:
  "snapshot (snd (clear_chat s)) = initial_conversation_history
   \<and> length (snapshot (snd (clear_chat s))) = 1
   \<and> (\<exists>body. initial_conversation_history = [SystemMessage body]
         \<and> snapshot (snd (clear_chat s)) = [SystemMessage body])"
  by (simp add: clear_chat_def snapshot_def initial_conversation_history_def)

section \<open>One assistant turn per user turn\<close>



section \<open>The enriched user turn\<close>



section \<open>The digest depends on the dataset alone\<close>


section \<open>The unavailable dataset\<close>

text \<open>
  C1, as stated, fails: without a dataset the digest builder does return its fixed
  message, but the chat route does not compose a turn from it. The user turn is the plain
  question.
\<close>
theorem unavailable_dataset_counterexample:
  "get_dataset_summary None = Inr ''Dataset not available.''
   \<and> chat_route (\<lambda>h. Inr ''ok'') [(''message'', ''hi'')]
        \<lparr>df = None, conversation_history = [SystemMessage ''instructions'']\<rparr>
      = (Inr ''ok'', \<lparr>df = None, conversation_history =
           [SystemMessage ''instructions'', HumanMessage ''hi'', AIMessage ''ok'']\<rparr>)
   \<and> ''hi'' \<noteq> compose_prompt ''Dataset not available.'' ''hi''
   \<and> \<not> sublist ''Dataset not available.'' ''hi''"
  by (simp add: get_dataset_summary_def chat_route_def add_dataset_context_def
      compose_prompt_def Let_def sublist_code prefix_code)

text \<open>
  C1, amended. Without a dataset the digest builder returns its fixed message; the chat
  route skips the composition, sends and stores the question unchanged as the user turn
  after the earlier turns, appends the reply, and raises nothing.
\<close>

theorem unavailable_dataset_plain_turn:
  assumes "df s = None" and "map_of request_json ''message'' = Some user_message"
  shows "get_dataset_summary (df s) = Inr ''Dataset not available.''
    \<and> (\<exists>reply.
      chat_route invoke request_json s
        = (Inr reply, s\<lparr>conversation_history :=
             conversation_history s @ [HumanMessage user_message, AIMessage reply]\<rparr>)
      \<and> (case invoke (conversation_history s @ [HumanMessage user_message]) of
            Inr content \<Rightarrow> reply = content
          | Inl e \<Rightarrow> reply = error_prefix @ e))
    \<and> conversation_history s @ [HumanMessage user_message] \<noteq> []"
proof -
  let ?r = "case invoke (conversation_history s @ [HumanMessage user_message]) of
              Inr content \<Rightarrow> content | Inl e \<Rightarrow> error_prefix @ e"
  have "chat_route invoke request_json s
          = (Inr ?r, s\<lparr>conversation_history :=
                         conversation_history s @ [HumanMessage user_message, AIMessage ?r]\<rparr>)"
    using chat_route_none [OF assms] by (simp add: Let_def)
  moreover have "case invoke (conversation_history s @ [HumanMessage user_message]) of
                   Inr content \<Rightarrow> ?r = content | Inl e \<Rightarrow> ?r = error_prefix @ e"
    by (simp split: sum.splits)
  ultimately show ?thesis
    using assms(1) by (auto simp: get_dataset_summary_def)
qed

theorem unavailable_dataset_plain_turn_witness:
  "df \<lparr>df = None, conversation_history = initial_conversation_history\<rparr> = None
   \<and> map_of [(''message'', ''hi'')] ''message'' = Some ''hi''
   \<and> get_dataset_summary (df \<lparr>df = None, conversation_history = initial_conversation_history\<rparr>)
       = Inr ''Dataset not available.''
   \<and> (\<exists>reply.
      chat_route (\<lambda>h. Inr ''hello'') [(''message'', ''hi'')]
          \<lparr>df = None, conversation_history = initial_conversation_history\<rparr>
        = (Inr reply, \<lparr>df = None, conversation_history =
             initial_conversation_history @ [HumanMessage ''hi'', AIMessage reply]\<rparr>)
      \<and> reply = ''hello'')"
  using unavailable_dataset_plain_turn
    [of "\<lparr>df = None, conversation_history = initial_conversation_history\<rparr>"
        "[(''message'', ''hi'')]" "''hi''" "\<lambda>h. Inr ''hello''"]
  by simp

section \<open>The shape of the digest\<close>


lemma get_dataset_summary_some:
  "get_dataset_summary (Some d) =
     Inr (overview_block d (if rows d = [] then 0
                            else of_int (fraud_count d) / of_nat (length (rows d)) * 100)
          @ key_columns_block
          @ (if rows (fraud_df d) = [] then []
             else statistics_heading (fraud_df d)
                  @ appended (loyalty_tier_analysis (fraud_df d))
                  @ appended (payment_method_analysis (fraud_df d))
                  @ appended (product_category_analysis (fraud_df d))
                  @ appended (store_analysis (fraud_df d))
                  @ appended (location_analysis (fraud_df d))
                  @ appended (device_type_analysis (fraud_df d))
                  @ purchase_amount_statistics (fraud_df d) []
                  @ customer_age_statistics (fraud_df d) []
                  @ time_note (fraud_df d) []))"
  by (simp add: get_dataset_summary_def fraud_rate_eq fraud_statistics_eq Let_def)

section \<open>The fraud rate\<close>



section \<open>The empty fraud subset\<close>

text \<open>
  C9. When no row of the table is flagged 1, or the table has no flag column, the digest
  is the header and nothing more: no heading of the statistics, no breakdown, no purchase
  or age statistics and no time note are appended, and nothing raises.
\<close>

theorem empty_fraud_subset_header_only:
  assumes "rows (fraud_df d) = []"
  shows "\<exists>rate. fraud_rate d = Inr rate
     \<and> get_dataset_summary (Some d) = Inr (overview_block d rate @ key_columns_block)"
  using assms by (simp add: get_dataset_summary_some fraud_rate_eq)

theorem empty_fraud_subset_header_only_witness:
  "rows (fraud_df legitimate_table) = []
   \<and> (\<exists>rate. fraud_rate legitimate_table = Inr rate
     \<and> get_dataset_summary (Some legitimate_table)
         = Inr (overview_block legitimate_table rate @ key_columns_block))"
proof -
  have h: "rows (fraud_df legitimate_table) = []"
    by (simp add: fraud_df_def legitimate_table_def transaction_def)
  show ?thesis using h empty_fraud_subset_header_only [OF h] by simp
qed

section \<open>The list of key columns\<close>

text \<open>
  C10. The digest of every loaded table contains the same paragraph of key columns, a
  constant of sixteen names, among them Product_SKU and IP_Address, whatever the columns
  of the table are. The tests for a column are in the statistical blocks only: a
  breakdown, the purchase statistics, the age statistics and the time note each append
  nothing when their column is absent.
\<close>

theorem key_columns_block_hardcoded:
  "(\<exists>before after. get_dataset_summary (Some d) = Inr (before @ key_columns_block @ after))
   \<and> key_columns_block
       = ''KEY COLUMNS AVAILABLE:\<newline>''
         @ concat (map (\<lambda>names. ''- '' @ str_join '', '' names @ ''\<newline>'') key_column_names)
         @ ''\<newline>''
   \<and> length (concat key_column_names) = 16
   \<and> ''Product_SKU'' \<in> set (concat key_column_names)
   \<and> ''IP_Address'' \<in> set (concat key_column_names)
   \<and> (column \<notin> set (columns fdf)
        \<longrightarrow> categorical_breakdown column field title tail limit fdf s = Inr s)
   \<and> (''Purchase_Amount'' \<notin> set (columns fdf) \<longrightarrow> purchase_amount_statistics fdf s = s)
   \<and> (''Customer_Age'' \<notin> set (columns fdf) \<longrightarrow> customer_age_statistics fdf s = s)
   \<and> (''Transaction_Time'' \<notin> set (columns fdf) \<longrightarrow> time_note fdf s = s)"
proof -
  have "\<exists>before after. get_dataset_summary (Some d) = Inr (before @ key_columns_block @ after)"
    unfolding get_dataset_summary_some by blast
  moreover have "key_columns_block
       = ''KEY COLUMNS AVAILABLE:\<newline>''
         @ concat (map (\<lambda>names. ''- '' @ str_join '', '' names @ ''\<newline>'') key_column_names)
         @ ''\<newline>''"
    by (simp add: key_columns_block_def key_column_names_def)
  moreover have "length (concat key_column_names) = 16"
    "''Product_SKU'' \<in> set (concat key_column_names)"
    "''IP_Address'' \<in> set (concat key_column_names)"
    by (simp_all add: key_column_names_def)
  ultimately show ?thesis
    by (simp add: categorical_breakdown_def purchase_amount_statistics_def
        customer_age_statistics_def time_note_def)
qed

theorem key_columns_block_hardcoded_witness:
  "''Store_ID'' \<notin> set (columns card_cash_table)
   \<and> ''Purchase_Amount'' \<notin> set (columns card_cash_table)
   \<and> ''Customer_Age'' \<notin> set (columns card_cash_table)
   \<and> ''Transaction_Time'' \<notin> set (columns card_cash_table)
   \<and> (\<exists>before after.
         get_dataset_summary (Some card_cash_table) = Inr (before @ key_columns_block @ after))
   \<and> store_analysis card_cash_table ''summary'' = Inr ''summary''
   \<and> purchase_amount_statistics card_cash_table ''summary'' = ''summary''
   \<and> customer_age_statistics card_cash_table ''summary'' = ''summary''
   \<and> time_note card_cash_table ''summary'' = ''summary''"
proof -
  have h: "''Store_ID'' \<notin> set (columns card_cash_table)"
    "''Purchase_Amount'' \<notin> set (columns card_cash_table)"
    "''Customer_Age'' \<notin> set (columns card_cash_table)"
    "''Transaction_Time'' \<notin> set (columns card_cash_table)"
    by (simp_all add: card_cash_table_def)
  show ?thesis
    using h key_columns_block_hardcoded
      [of card_cash_table "''Store_ID''" card_cash_table Store_ID
          "''\<newline>Stores in Fraud (Top 10):\<newline>''" "''%)\<newline>''" "Some 10" "''summary''"]
    by (simp add: store_analysis_def)
qed

section \<open>Rounding and the sum of the percentages\<close>









lemma length_dropna_le: "length (dropna col) \<le> length col"
  by (induction col) (auto split: option.splits)

lemma length_dropna_full: "None \<notin> set col \<Longrightarrow> length (dropna col) = length col"
proof (induction col)
  case Nil
  then show ?case by simp
next
  case (Cons c col)
  then obtain v where "c = Some v" by (cases c) auto
  with Cons show ?case by simp
qed















section \<open>The order of the groups and the top ten\<close>













end
